theory Spec2Isabelle
  imports Main "HOL-Library.Word"
begin

section \<open>Shared runtime model\<close>

text \<open>
  A Go panic ends the function that raises it; it is the \<open>Inl\<close> branch of a result.
  \<open>LogPanic msg\<close> is the panic raised by the logger's \<open>Panic\<close> method,
  \<open>IndexOutOfRange i n\<close> the runtime error of reading index \<open>i\<close> of a slice of
  length \<open>n\<close>, \<open>LibPanic msg\<close> a panic raised inside the standard library with
  that text.
\<close>

datatype panic = LogPanic string | IndexOutOfRange int nat | LibPanic string

text \<open>
  A Go slice is a header (backing array, length, capacity); two headers may share one
  backing array. The arrays live in a store: \<open>cells h a i\<close> is cell \<open>i\<close> of the array at
  address \<open>a\<close>, \<open>next_addr h\<close> the next address handed out. The nil slice has length and
  capacity 0.
\<close>

record slice =
  ptr :: nat
  len :: nat
  cap :: nat

record 'a heap =
  cells :: "nat \<Rightarrow> nat \<Rightarrow> 'a"
  next_addr :: nat

definition nil_slice :: slice where
  "nil_slice = \<lparr>ptr = 0, len = 0, cap = 0\<rparr>"

definition elems :: "'a heap \<Rightarrow> slice \<Rightarrow> 'a list" where
  "elems h s = map (cells h (ptr s)) [0..<len s]"

text \<open>
  \<open>append(s, x)\<close>: with spare capacity the element is written into the shared backing
  array in place; otherwise the elements are copied into a new array, whose capacity the
  runtime chooses (\<open>grow\<close>, a parameter).
\<close>

definition go_append :: "(nat \<Rightarrow> nat) \<Rightarrow> 'a heap \<Rightarrow> slice \<Rightarrow> 'a \<Rightarrow> slice \<times> 'a heap" where
  "go_append grow h s x =
     (if len s < cap s
      then (s\<lparr>len := len s + 1\<rparr>,
            h\<lparr>cells := (cells h)(ptr s := (cells h (ptr s))(len s := x))\<rparr>)
      else (let a = next_addr h;
                old = cells h (ptr s);
                arr = (\<lambda>i. if i < len s then old i else if i = len s then x else cells h a i)
            in (\<lparr>ptr = a, len = len s + 1, cap = grow (cap s)\<rparr>,
                h\<lparr>cells := (cells h)(a := arr), next_addr := a + 1\<rparr>)))"

section \<open>Config consensus node: pkg/cluster/cluster/clusterconfig/node.go\<close>

text \<open>
  Modelled from the spec: the declarations of the role and message types are not in the
  sources. The spec gives \<open>role \<in> {Follower, Candidate, Leader}\<close>, the message types
  listed below, and \<open>{type, from, to, term, configVersion}\<close> plus optional config data as
  the content of a message.
\<close>

datatype RoleType = RoleFollower | RoleCandidate | RoleLeader

datatype MessageType =
  EventPropose | EventHup | EventBeat | EventAppendConfig | EventAppendConfigResp
  | EventVoteRequest | EventVoteResponse | EventSync | EventApply | EventHeartbeat
  | EventHeartbeatResp

record Message =
  Type :: MessageType
  From :: "64 word"
  To :: "64 word"
  Term :: "32 word"
  ConfigVersion :: "64 word"
  ConfigData :: "8 word list"

text \<open>
  Modelled from the spec: the constant \<open>None\<close> of the package is not in the sources; by
  the spec the leader id 0 stands for "no node".
\<close>

definition None_id :: "64 word" where
  "None_id = 0"

record Options =
  NodeId :: "64 word"
  OptConfigVersion :: "64 word"
  ElectionTimeoutTick :: "64 word"
  HeartbeatTimeoutTick :: "64 word"

record State =
  leader :: "64 word"
  term' :: "32 word"
  voteFor :: "64 word"

text \<open>
  \<open>tickFnc\<close> and \<open>stepFnc\<close> hold one of the node's own methods; the model keeps which.
\<close>

datatype tick_fn = tick_nil | tickElection | tickHeartbeat
datatype step_fn = step_nil | stepFollower | stepCandidate | stepLeader

record Node =
  opts :: Options
  state :: State
  leaderConfigVersion :: "64 word"
  localConfigVersion :: "64 word"
  committedConfigVersion :: "64 word"
  appliedConfigVersion :: "64 word"
  configData :: "8 word list"
  role :: RoleType
  votes :: "64 word \<rightharpoonup> bool"
  electionElapsed :: "64 word"
  heartbeatElapsed :: "64 word"
  randomizedElectionTimeout :: "64 word"
  nodeConfigVersionMap :: "64 word \<rightharpoonup> 64 word"
  tickFnc :: tick_fn
  stepFnc :: step_fn
  msgs :: slice

record Ready =
  Messages :: slice

text \<open>
  What the node takes from its surroundings: the random source behind
  \<open>globalRand.Intn\<close> (\<open>rand_Int\<close>: what \<open>crypto/rand\<close> draws below a positive
  bound, reading a world \<open>'w\<close>), the capacity the runtime gives a slice that grows, and
  the two message constructors \<open>newSync\<close> and \<open>newApply\<close>, which are declared outside
  the sources.
\<close>

record 'w runtime =
  rand_Int :: "64 word \<Rightarrow> 'w \<Rightarrow> 64 word \<times> 'w"
  growslice :: "nat \<Rightarrow> nat"
  newSync :: "Node \<Rightarrow> Message"
  newApply :: "Node \<Rightarrow> Message"

text \<open>
  \<open>lockedRand.Intn\<close> calls \<open>rand.Int(rand.Reader, big.NewInt(int64(n)))\<close>, which
  panics when its bound is not positive; \<open>n\<close> is a signed 64-bit \<open>int\<close>. For a
  positive bound the random source is taken to deliver.
\<close>

definition Intn :: "'w runtime \<Rightarrow> 64 word \<Rightarrow> 'w \<Rightarrow> panic + 64 word \<times> 'w" where
  "Intn rt n w =
     (if n \<le>s 0 then Inl (LibPanic ''crypto/rand: argument to Int is <= 0'')
      else Inr (rand_Int rt n w))"

definition isLeader :: "Node \<Rightarrow> bool" where
  "isLeader n = (role n = RoleLeader)"

definition HasReady :: "Node \<Rightarrow> bool" where
  "HasReady n =
     (if 0 < len (msgs n) then True
      else if \<not> isLeader n
      then (if leaderConfigVersion n \<noteq> localConfigVersion n then True else False)
      else False)"

text \<open>
  \<open>Ready\<close> starts from the header of \<open>n.msgs\<close>. The Sync message is appended to
  \<open>n.msgs\<close> and the result stored back in the node; the Apply message is appended to
  \<open>rd.Messages\<close>. Both appends start from the same header.
\<close>

definition Ready :: "'w runtime \<Rightarrow> Node \<Rightarrow> Message heap \<Rightarrow> Ready \<times> Node \<times> Message heap" where
  "Ready rt n h =
     (let rd = \<lparr>Messages = msgs n\<rparr>;
          (n1, h1) =
            (if \<not> isLeader n
             then (if leaderConfigVersion n \<noteq> localConfigVersion n
                   then (let (s, h') = go_append (growslice rt) h (msgs n) (newSync rt n)
                         in (n\<lparr>msgs := s\<rparr>, h'))
                   else (n, h))
             else (n, h));
          (rd1, h2) =
            (if appliedConfigVersion n1 < committedConfigVersion n1
             then (let (s, h') = go_append (growslice rt) h1 (Messages rd) (newApply rt n1)
                   in (rd\<lparr>Messages := s\<rparr>, h'))
             else (rd, h1))
      in (rd1, n1, h2))"

definition AcceptReady :: "Ready \<Rightarrow> Node \<Rightarrow> Node" where
  "AcceptReady rd n = n\<lparr>msgs := nil_slice\<rparr>"

definition send :: "'w runtime \<Rightarrow> Message \<Rightarrow> Node \<Rightarrow> Message heap \<Rightarrow> Node \<times> Message heap" where
  "send rt m n h = (let (s, h') = go_append (growslice rt) h (msgs n) m in (n\<lparr>msgs := s\<rparr>, h'))"

definition HasLeader :: "Node \<Rightarrow> bool" where
  "HasLeader n = (leader (state n) \<noteq> None_id)"

definition pastElectionTimeout :: "Node \<Rightarrow> bool" where
  "pastElectionTimeout n = (randomizedElectionTimeout n \<le>s electionElapsed n)"

definition resetRandomizedElectionTimeout :: "'w runtime \<Rightarrow> Node \<Rightarrow> 'w \<Rightarrow> panic + Node \<times> 'w" where
  "resetRandomizedElectionTimeout rt n w =
     (case Intn rt (ElectionTimeoutTick (opts n)) w of
        Inl pn \<Rightarrow> Inl pn
      | Inr (v, w') \<Rightarrow>
          Inr (n\<lparr>randomizedElectionTimeout := ElectionTimeoutTick (opts n) + v\<rparr>, w'))"

definition reset :: "'w runtime \<Rightarrow> 32 word \<Rightarrow> Node \<Rightarrow> 'w \<Rightarrow> panic + Node \<times> 'w" where
  "reset rt t n w =
     (let n1 = n\<lparr>state := (state n)\<lparr>term' := t\<rparr>\<rparr>;
          n2 = n1\<lparr>state := (state n1)\<lparr>voteFor := None_id\<rparr>\<rparr>;
          n3 = n2\<lparr>votes := Map.empty\<rparr>;
          n4 = n3\<lparr>electionElapsed := 0\<rparr>
      in resetRandomizedElectionTimeout rt n4 w)"

definition becomeFollower ::
    "'w runtime \<Rightarrow> 32 word \<Rightarrow> 64 word \<Rightarrow> Node \<Rightarrow> 'w \<Rightarrow> panic + Node \<times> 'w" where
  "becomeFollower rt t l n w =
     (let n1 = n\<lparr>stepFnc := stepFollower\<rparr>
      in case reset rt t n1 w of
           Inl pn \<Rightarrow> Inl pn
         | Inr (n2, w') \<Rightarrow>
             (let n3 = n2\<lparr>tickFnc := tickElection\<rparr>;
                  n4 = n3\<lparr>state := (state n3)\<lparr>voteFor := l\<rparr>\<rparr>;
                  n5 = n4\<lparr>state := (state n4)\<lparr>leader := l\<rparr>\<rparr>
              in Inr (n5\<lparr>role := RoleFollower\<rparr>, w')))"

text \<open>
  Modelled from the spec: the logger's \<open>Panic\<close> method (package \<open>wklog\<close>) is not in
  the sources. By the spec a forbidden transition aborts the process: a call of \<open>Panic\<close>
  does not return, it ends the calling function with a panic that carries the logged text.
\<close>

definition Panic :: "string \<Rightarrow> panic + 'a" where
  "Panic msg = Inl (LogPanic msg)"

definition becomeCandidate :: "'w runtime \<Rightarrow> Node \<Rightarrow> 'w \<Rightarrow> panic + Node \<times> 'w" where
  "becomeCandidate rt n w =
     (if role n = RoleLeader then Panic ''invalid transition [leader -> candidate]''
      else (let n1 = n\<lparr>stepFnc := stepCandidate\<rparr>
            in case reset rt (term' (state n1) + 1) n1 w of
                 Inl pn \<Rightarrow> Inl pn
               | Inr (n2, w') \<Rightarrow>
                   (let n3 = n2\<lparr>tickFnc := tickElection\<rparr>;
                        n4 = n3\<lparr>state := (state n3)\<lparr>voteFor := NodeId (opts n3)\<rparr>\<rparr>;
                        n5 = n4\<lparr>state := (state n4)\<lparr>leader := None_id\<rparr>\<rparr>
                    in Inr (n5\<lparr>role := RoleCandidate\<rparr>, w'))))"

definition becomeLeader :: "'w runtime \<Rightarrow> Node \<Rightarrow> 'w \<Rightarrow> panic + Node \<times> 'w" where
  "becomeLeader rt n w =
     (if role n = RoleFollower then Panic ''invalid transition [follower -> leader]''
      else (let n1 = n\<lparr>stepFnc := stepLeader\<rparr>
            in case reset rt (term' (state n1)) n1 w of
                 Inl pn \<Rightarrow> Inl pn
               | Inr (n2, w') \<Rightarrow>
                   (let n3 = n2\<lparr>tickFnc := tickHeartbeat\<rparr>;
                        n4 = n3\<lparr>state := (state n3)\<lparr>leader := NodeId (opts n3)\<rparr>\<rparr>
                    in Inr (n4\<lparr>role := RoleLeader\<rparr>, w'))))"

text \<open>Example nodes: a node as \<open>NewNode\<close> leaves it, at config version 1.\<close>

definition opts0 :: Options where
  "opts0 = \<lparr>NodeId = 1, OptConfigVersion = 1, ElectionTimeoutTick = 10, HeartbeatTimeoutTick = 1\<rparr>"

definition node0 :: Node where
  "node0 = \<lparr>opts = opts0, state = \<lparr>leader = 0, term' = 0, voteFor = 0\<rparr>,
            leaderConfigVersion = 0, localConfigVersion = 1, committedConfigVersion = 1,
            appliedConfigVersion = 1, configData = [], role = RoleFollower,
            votes = Map.empty, electionElapsed = 0, heartbeatElapsed = 0,
            randomizedElectionTimeout = 10, nodeConfigVersionMap = Map.empty,
            tickFnc = tickElection, stepFnc = stepFollower, msgs = nil_slice\<rparr>"

section \<open>Reactor shard: internal/reactor/channel/reactpr_sub.go\<close>

text \<open>
  The action and channel types of the reactor package are declared outside the sources.
  The model keeps the fields the shard reads (\<open>Type\<close>, \<open>ChannelId\<close>, \<open>ChannelType\<close>,
  \<open>No\<close> of an action; \<open>key\<close> and \<open>no\<close> of a channel) and leaves the rest of a
  channel as a value of type \<open>'c\<close>. The channel's \<open>step\<close> method and
  \<open>wkutil.ChannelToKey\<close> are parameters.
\<close>

datatype reactor_ActionType = ChannelActionClose | ChannelActionOther nat

record reactor_ChannelAction =
  ra_Type :: reactor_ActionType
  ra_ChannelId :: string
  ra_ChannelType :: "8 word"
  No :: string

record 'c Channel =
  c_key :: string
  no :: string
  rest :: 'c

record 'c shard_env =
  ChannelToKey :: "string \<Rightarrow> 8 word \<Rightarrow> string"
  step :: "'c Channel \<Rightarrow> reactor_ChannelAction \<Rightarrow> 'c Channel"

text \<open>
  The state the loop of \<open>handleReceivedActions\<close> works on: the shard's registry
  \<open>channels\<close> (key to channel) and, in order, the calls of \<open>step\<close> made so far, each
  with the registry key of the channel it was made on.
\<close>

record 'c shard =
  channels :: "string \<rightharpoonup> 'c Channel"
  stepped :: "(string \<times> reactor_ChannelAction) list"

definition handleReceivedAction :: "'c shard_env \<Rightarrow> reactor_ChannelAction \<Rightarrow> 'c shard \<Rightarrow> 'c shard" where
  "handleReceivedAction e a sh =
     (let k = ChannelToKey e (ra_ChannelId a) (ra_ChannelType a)
      in case channels sh k of
           None \<Rightarrow> sh
         | Some user \<Rightarrow>
             if No a \<noteq> [] \<and> No a \<noteq> no user then sh
             else sh\<lparr>channels := (channels sh)(k \<mapsto> step e user a),
                     stepped := stepped sh @ [(k, a)]\<rparr>)"

fun handleReceivedActions_loop :: "'c shard_env \<Rightarrow> reactor_ChannelAction list \<Rightarrow> 'c shard \<Rightarrow> 'c shard" where
  "handleReceivedActions_loop e [] sh = sh"
| "handleReceivedActions_loop e (a # as) sh =
     handleReceivedActions_loop e as (handleReceivedAction e a sh)"

text \<open>\<open>actions\<close> is what \<open>r.actionQueue.get()\<close> returned.\<close>

definition handleReceivedActions :: "'c shard_env \<Rightarrow> reactor_ChannelAction list \<Rightarrow> 'c shard \<Rightarrow> bool \<times> 'c shard" where
  "handleReceivedActions e actions sh =
     (if length actions = 0 then (False, sh)
      else (True, handleReceivedActions_loop e actions sh))"

section \<open>Stage workers: internal/server/channel_reactor_process.go\<close>

subsection \<open>Data\<close>

text \<open>
  The message, packet, channel and action types are declared outside the sources; the
  records hold the fields the workers read or write. A field left out of a composite
  literal has Go's zero value: \<open>0\<close>, the empty string, the nil slice (\<open>[]\<close>). The
  sources do not fix which \<open>Reason\<close> and which reason code is the zero value, so an
  action holds \<open>None\<close> where the literal sets no \<open>Reason\<close> or no \<open>ReasonCode\<close>.
  The reason codes are those the workers name. A byte slice is a \<open>string\<close>.
\<close>

type_synonym bytes = string

datatype error = errors_New string | fmt_Errorf string int

datatype Reason = ReasonSuccess | ReasonError

datatype ReasonCode =
  wkproto_ReasonSuccess | wkproto_ReasonSubscriberNotExist
  | wkproto_ReasonInBlacklist | wkproto_ReasonNotInWhitelist | wkproto_ReasonSystemError
  | wkproto_ReasonBan | wkproto_ReasonDisband

record Framer =
  RedDot :: bool
  SyncOnce :: bool
  NoPersist :: bool

record wkproto_SendPacket =
  sp_Framer :: Framer
  sp_ClientMsgNo :: string
  sp_ClientSeq :: "64 word"
  sp_ChannelType :: "8 word"
  sp_Expire :: "32 word"
  sp_Payload :: bytes

record ReactorChannelMessage =
  FromConnId :: "64 word"
  FromUid :: string
  FromDeviceId :: string
  FromNodeId :: "64 word"
  SendPacket :: wkproto_SendPacket
  MessageId :: "64 word"
  MessageSeq :: "32 word"
  IsEncrypt :: bool
  Index :: "64 word"

record wkproto_RecvPacket =
  rp_Framer :: Framer
  MessageID :: "64 word"
  rp_ClientMsgNo :: string
  rp_ClientSeq :: "64 word"
  FromUID :: string
  ChannelID :: string
  rp_ChannelType :: "8 word"
  rp_Expire :: "32 word"
  Timestamp :: "32 word"
  rp_Payload :: bytes

record wkdb_Message =
  RecvPacket :: wkproto_RecvPacket

record AppendResult =
  LogId :: "64 word"
  LogIndex :: "64 word"

record SendackPacket =
  ack_Framer :: Framer
  ack_MessageID :: "64 word"
  ack_MessageSeq :: "32 word"
  ack_ClientSeq :: "64 word"
  ack_ClientMsgNo :: string
  ack_ReasonCode :: ReasonCode

record ForwardSendackPacket =
  Uid :: string
  DeviceId :: string
  Sendack :: SendackPacket

record ChannelInfo =
  Ban :: bool
  Disband :: bool

record channel =
  key :: string
  channelId :: string
  channelType :: "8 word"
  uniqueNo :: string
  info :: ChannelInfo

record ChannelFowardReq =
  cf_ChannelId :: string
  cf_ChannelType :: "8 word"
  cf_Messages :: "ReactorChannelMessage list"

datatype ChannelActionType =
  ChannelActionInitResp | ChannelActionPayloadDecryptResp | ChannelActionLeaderChange
  | ChannelActionForwardResp | ChannelActionPermissionCheckResp | ChannelActionStorageResp
  | ChannelActionSendackResp | ChannelActionDeliverResp

record ChannelAction =
  UniqueNo :: string
  ActionType :: ChannelActionType
  ca_Index :: "64 word"
  Reason :: "Reason option"
  ReasonCode :: "ReasonCode option"
  LeaderId :: "64 word"
  ca_Messages :: "ReactorChannelMessage list"

record forwardReq =
  f_ch :: channel
  leaderId :: "64 word"
  f_messages :: "ReactorChannelMessage list"

record permissionReq =
  fromUid :: string
  p_ch :: channel
  p_messages :: "ReactorChannelMessage list"

record storageReq =
  st_ch :: channel
  st_messages :: "ReactorChannelMessage list"

record sendackReq =
  sk_ch :: channel
  sk_messages :: "ReactorChannelMessage list"

record deliverReq =
  d_ch :: channel
  d_channelId :: string
  d_channelType :: "8 word"
  channelKey :: string
  tagKey :: string
  d_messages :: "ReactorChannelMessage list"

record Response =
  Status :: int
  Body :: bytes

subsection \<open>Collaborators and effects\<close>

text \<open>
  Every call a worker makes on a collaborator is an event, kept in order in a trace with
  the arguments of the call. A context made by \<open>context.WithTimeout\<close> is the timeout it
  was given (a \<open>time.Duration\<close>, in nanoseconds). \<open>EvStep ch a\<close> is the call
  \<open>sub.step(ch, a)\<close> on the shard that owns \<open>ch\<close>, which hands the response action
  back to it. Log output is not modelled.
\<close>

datatype event =
  EvSystemUID string
  | EvExistDenylist string "8 word" string
  | EvExistSubscriber string "8 word" string
  | EvHasAllowlist string "8 word"
  | EvExistAllowlist string "8 word" string
  | EvAppendMessages string "8 word" "wkdb_Message list"
  | EvNodeIsOnline "64 word"
  | EvLeaderIdOfChannel int string "8 word"
  | EvLeaderOfChannel int string "8 word"
  | EvRequestWithContext int "64 word" string bytes
  | EvWritePacketByConnId string "64 word" SendackPacket
  | EvDeliver deliverReq
  | EvStep channel ChannelAction

definition Second :: int where
  "Second = 1000000000"

text \<open>
  The reactor \<open>r\<close> as the workers see it: the options they read and the collaborators
  they call (\<open>r.s.store\<close>, \<open>r.s.cluster\<close>, \<open>r.s.clusterServer\<close>,
  \<open>r.s.systemUIDManager\<close>, \<open>r.s.userReactor\<close>, \<open>r.s.deliverManager\<close>, the clock,
  the two \<open>Marshal\<close> methods, the channel-type and status constants of the protocol
  packages and the order in which the runtime ranges over the keys of a map). A
  collaborator reads and changes a world \<open>'w\<close> that the model does not look into; an
  \<open>error option\<close> is Go's \<open>error\<close>, \<open>None\<close> for nil. \<open>cluster_LeaderOfChannel\<close>
  yields the \<open>Id\<close> of the node it returns.
\<close>

record 'w env =
  ChannelTypePerson :: "8 word"
  ChannelTypeInfo :: "8 word"
  WhitelistOffOfPerson :: bool
  opts_SystemUID :: string
  Cluster_NodeId :: "64 word"
  Status_OK :: int
  errCodeNotIsChannelLeader :: int
  systemUIDManager_SystemUID :: "string \<Rightarrow> 'w \<Rightarrow> bool \<times> 'w"
  store_ExistDenylist :: "string \<Rightarrow> 8 word \<Rightarrow> string \<Rightarrow> 'w \<Rightarrow> (bool \<times> error option) \<times> 'w"
  store_ExistSubscriber :: "string \<Rightarrow> 8 word \<Rightarrow> string \<Rightarrow> 'w \<Rightarrow> (bool \<times> error option) \<times> 'w"
  store_HasAllowlist :: "string \<Rightarrow> 8 word \<Rightarrow> 'w \<Rightarrow> (bool \<times> error option) \<times> 'w"
  store_ExistAllowlist :: "string \<Rightarrow> 8 word \<Rightarrow> string \<Rightarrow> 'w \<Rightarrow> (bool \<times> error option) \<times> 'w"
  store_AppendMessages ::
    "string \<Rightarrow> 8 word \<Rightarrow> wkdb_Message list \<Rightarrow> 'w \<Rightarrow> (AppendResult list \<times> error option) \<times> 'w"
  time_Now_Unix :: "'w \<Rightarrow> 64 word \<times> 'w"
  clusterServer_NodeIsOnline :: "64 word \<Rightarrow> 'w \<Rightarrow> bool \<times> 'w"
  cluster_LeaderIdOfChannel :: "int \<Rightarrow> string \<Rightarrow> 8 word \<Rightarrow> 'w \<Rightarrow> (64 word \<times> error option) \<times> 'w"
  cluster_LeaderOfChannel :: "int \<Rightarrow> string \<Rightarrow> 8 word \<Rightarrow> 'w \<Rightarrow> (64 word \<times> error option) \<times> 'w"
  cluster_RequestWithContext ::
    "int \<Rightarrow> 64 word \<Rightarrow> string \<Rightarrow> bytes \<Rightarrow> 'w \<Rightarrow> (Response \<times> error option) \<times> 'w"
  ChannelFowardReq_Marshal :: "ChannelFowardReq \<Rightarrow> bytes \<times> error option"
  ForwardSendackPacketSet_Marshal :: "ForwardSendackPacket list \<Rightarrow> bytes \<times> error option"
  userReactor_writePacketByConnId :: "string \<Rightarrow> 64 word \<Rightarrow> SendackPacket \<Rightarrow> 'w \<Rightarrow> error option \<times> 'w"
  deliverManager_deliver :: "deliverReq \<Rightarrow> 'w \<Rightarrow> unit \<times> 'w"
  map_range_order :: "64 word list \<Rightarrow> 'w \<Rightarrow> 64 word list \<times> 'w"

record 'w sys =
  world :: 'w
  trace :: "event list"

definition call :: "event \<Rightarrow> ('w \<Rightarrow> 'a \<times> 'w) \<Rightarrow> 'w sys \<Rightarrow> 'a \<times> 'w sys" where
  "call ev f s = (let (x, w') = f (world s) in (x, \<lparr>world = w', trace = trace s @ [ev]\<rparr>))"

definition sub_step :: "channel \<Rightarrow> ChannelAction \<Rightarrow> 'w sys \<Rightarrow> 'w sys" where
  "sub_step ch a s = s\<lparr>trace := trace s @ [EvStep ch a]\<rparr>"

text \<open>\<open>xs[i]\<close>: a read outside \<open>0 \<le> i < len(xs)\<close> panics.\<close>

definition go_index :: "'a list \<Rightarrow> int \<Rightarrow> panic + 'a" where
  "go_index xs i =
     (if 0 \<le> i \<and> i < int (length xs) then Inr (xs ! nat i)
      else Inl (IndexOutOfRange i (length xs)))"

subsection \<open>Forward\<close>

definition requestChannelFoward ::
    "'w env \<Rightarrow> 64 word \<Rightarrow> ChannelFowardReq \<Rightarrow> 'w sys \<Rightarrow> (bool \<times> error option) \<times> 'w sys" where
  "requestChannelFoward r nodeId req s =
     (let (data, err) = ChannelFowardReq_Marshal r req
      in case err of
           Some e \<Rightarrow> ((False, Some e), s)
         | None \<Rightarrow>
             (let ((resp, err1), s1) =
                    call (EvRequestWithContext (Second * 5) nodeId ''/wk/channelFoward'' data)
                      (cluster_RequestWithContext r (Second * 5) nodeId ''/wk/channelFoward'' data) s
              in case err1 of
                   Some e \<Rightarrow> ((False, Some e), s1)
                 | None \<Rightarrow>
                     if Status resp = errCodeNotIsChannelLeader r then ((True, None), s1)
                     else if Status resp \<noteq> Status_OK r
                     then (let err2 = (if 0 < length (Body resp) then errors_New (Body resp)
                                       else fmt_Errorf ''requestChannelFoward failed, status[%d] error''
                                              (Status resp))
                           in ((False, Some err2), s1))
                     else ((False, None), s1)))"

definition handleForward :: "'w env \<Rightarrow> forwardReq \<Rightarrow> 'w sys \<Rightarrow> (64 word \<times> error option) \<times> 'w sys" where
  "handleForward r req s =
     (if length (f_messages req) = 0 then ((0, None), s)
      else if leaderId req = 0 then ((0, Some (errors_New ''leaderId is 0'')), s)
      else (let ((needChangeLeader, err), s1) =
                  requestChannelFoward r (leaderId req)
                    \<lparr>cf_ChannelId = channelId (f_ch req), cf_ChannelType = channelType (f_ch req),
                     cf_Messages = f_messages req\<rparr> s
            in case err of
                 Some e \<Rightarrow> ((0, Some e), s1)
               | None \<Rightarrow>
                   if needChangeLeader
                   then (let ((nodeId, err1), s2) =
                               call (EvLeaderOfChannel (Second * 5) (channelId (f_ch req)) (channelType (f_ch req)))
                                 (cluster_LeaderOfChannel r (Second * 5) (channelId (f_ch req))
                                    (channelType (f_ch req))) s1
                         in case err1 of
                              Some e \<Rightarrow> ((0, Some e), s2)
                            | None \<Rightarrow> ((nodeId, Some (errors_New ''leader change'')), s2))
                   else ((0, None), s1)))"

text \<open>The body of the loop of \<open>processForward\<close>, for one request.\<close>

definition processForward_req :: "'w env \<Rightarrow> forwardReq \<Rightarrow> 'w sys \<Rightarrow> 'w sys" where
  "processForward_req r req s =
     (let (online, s1) =
            call (EvNodeIsOnline (leaderId req)) (clusterServer_NodeIsOnline r (leaderId req)) s;
          ((newLeaderId, err), s2) =
            (if \<not> online
             then (let ((l, e), s') =
                         call (EvLeaderIdOfChannel (Second * 1) (channelId (f_ch req)) (channelType (f_ch req)))
                           (cluster_LeaderIdOfChannel r (Second * 1) (channelId (f_ch req))
                              (channelType (f_ch req))) s1
                   in case e of
                        Some e' \<Rightarrow> ((l, Some e'), s')
                      | None \<Rightarrow> ((l, Some (errors_New ''leader change'')), s'))
             else handleForward r req s1);
          reason = (if err \<noteq> None then ReasonError else ReasonSuccess);
          s3 = (if 0 < newLeaderId
                then sub_step (f_ch req)
                       \<lparr>UniqueNo = uniqueNo (f_ch req), ActionType = ChannelActionLeaderChange,
                        ca_Index = 0, Reason = None, ReasonCode = None,
                        LeaderId = newLeaderId, ca_Messages = []\<rparr> s2
                else s2)
      in sub_step (f_ch req)
           \<lparr>UniqueNo = uniqueNo (f_ch req), ActionType = ChannelActionForwardResp,
            ca_Index = 0, Reason = Some reason, ReasonCode = None,
            LeaderId = 0, ca_Messages = f_messages req\<rparr> s3)"

fun processForward :: "'w env \<Rightarrow> forwardReq list \<Rightarrow> 'w sys \<Rightarrow> 'w sys" where
  "processForward r [] s = s"
| "processForward r (req # reqs) s = processForward r reqs (processForward_req r req s)"

subsection \<open>Permission\<close>

definition hasPermission ::
    "'w env \<Rightarrow> string \<Rightarrow> 8 word \<Rightarrow> string \<Rightarrow> channel \<Rightarrow> 'w sys \<Rightarrow> (ReasonCode \<times> error option) \<times> 'w sys" where
  "hasPermission r cid ct uid ch s =
     (if ct = ChannelTypeInfo r \<or> ct = ChannelTypePerson r then ((wkproto_ReasonSuccess, None), s)
      else (let (systemAccount, s1) = call (EvSystemUID uid) (systemUIDManager_SystemUID r uid) s
            in if systemAccount then ((wkproto_ReasonSuccess, None), s1)
               else (let channelInfo = info ch
                     in if Ban channelInfo then ((wkproto_ReasonBan, None), s1)
                        else if Disband channelInfo then ((wkproto_ReasonDisband, None), s1)
                        else (let ((isDenylist, err), s2) =
                                    call (EvExistDenylist cid ct uid) (store_ExistDenylist r cid ct uid) s1
                              in case err of
                                   Some e \<Rightarrow> ((wkproto_ReasonSystemError, Some e), s2)
                                 | None \<Rightarrow>
                                     if isDenylist then ((wkproto_ReasonInBlacklist, None), s2)
                                     else (let ((isSubscriber, err1), s3) =
                                                 call (EvExistSubscriber cid ct uid)
                                                   (store_ExistSubscriber r cid ct uid) s2
                                           in case err1 of
                                                Some e \<Rightarrow> ((wkproto_ReasonSystemError, Some e), s3)
                                              | None \<Rightarrow>
                                                  if \<not> isSubscriber
                                                  then ((wkproto_ReasonSubscriberNotExist, None), s3)
                                                  else if \<not> WhitelistOffOfPerson r \<or> ct \<noteq> ChannelTypePerson r
                                                  then (let ((hasAllowlist, err2), s4) =
                                                              call (EvHasAllowlist cid ct)
                                                                (store_HasAllowlist r cid ct) s3
                                                        in case err2 of
                                                             Some e \<Rightarrow> ((wkproto_ReasonSystemError, Some e), s4)
                                                           | None \<Rightarrow>
                                                               if hasAllowlist
                                                               then (let ((isAllowlist, err3), s5) =
                                                                           call (EvExistAllowlist cid ct uid)
                                                                             (store_ExistAllowlist r cid ct uid) s4
                                                                     in case err3 of
                                                                          Some e \<Rightarrow>
                                                                            ((wkproto_ReasonSystemError, Some e), s5)
                                                                        | None \<Rightarrow>
                                                                            if \<not> isAllowlist
                                                                            then ((wkproto_ReasonNotInWhitelist, None), s5)
                                                                            else ((wkproto_ReasonSuccess, None), s5))
                                                               else ((wkproto_ReasonSuccess, None), s4))
                                                  else ((wkproto_ReasonSuccess, None), s3))))))"

definition processPermission :: "'w env \<Rightarrow> permissionReq \<Rightarrow> 'w sys \<Rightarrow> (panic + unit) \<times> 'w sys" where
  "processPermission r req s =
     (let ((reasonCode, err), s1) =
            hasPermission r (channelId (p_ch req)) (channelType (p_ch req)) (fromUid req) (p_ch req) s
      in case err of
           Some e \<Rightarrow>
             (case go_index (p_messages req) (int (length (p_messages req)) - 1) of
                Inl pn \<Rightarrow> (Inl pn, s1)
              | Inr lastMsg \<Rightarrow>
                  (Inr (),
                   sub_step (p_ch req)
                     \<lparr>UniqueNo = uniqueNo (p_ch req), ActionType = ChannelActionPermissionCheckResp,
                      ca_Index = Index lastMsg, Reason = Some ReasonError,
                      ReasonCode = None, LeaderId = 0, ca_Messages = []\<rparr> s1))
         | None \<Rightarrow>
             (let reason = (if reasonCode \<noteq> wkproto_ReasonSuccess then ReasonError else ReasonSuccess)
              in case go_index (p_messages req) (int (length (p_messages req)) - 1) of
                   Inl pn \<Rightarrow> (Inl pn, s1)
                 | Inr lastMsg \<Rightarrow>
                     (Inr (),
                      sub_step (p_ch req)
                        \<lparr>UniqueNo = uniqueNo (p_ch req), ActionType = ChannelActionPermissionCheckResp,
                         ca_Index = Index lastMsg, Reason = Some reason,
                         ReasonCode = Some reasonCode, LeaderId = 0, ca_Messages = []\<rparr> s1)))"

subsection \<open>Storage\<close>

text \<open>
  The message handed to the store for a request message, with the reading of the clock
  taken for it. \<open>int32(x)\<close> keeps the low 32 bits.
\<close>

definition toStoreMessage :: "storageReq \<Rightarrow> ReactorChannelMessage \<Rightarrow> 64 word \<Rightarrow> wkdb_Message" where
  "toStoreMessage req msg now =
     (let sendPacket = SendPacket msg
      in \<lparr>RecvPacket =
            \<lparr>rp_Framer = \<lparr>RedDot = RedDot (sp_Framer sendPacket),
                          SyncOnce = SyncOnce (sp_Framer sendPacket),
                          NoPersist = NoPersist (sp_Framer sendPacket)\<rparr>,
             MessageID = MessageId msg,
             rp_ClientMsgNo = sp_ClientMsgNo sendPacket,
             rp_ClientSeq = sp_ClientSeq sendPacket,
             FromUID = FromUid msg,
             ChannelID = channelId (st_ch req),
             rp_ChannelType = sp_ChannelType sendPacket,
             rp_Expire = sp_Expire sendPacket,
             Timestamp = ucast now,
             rp_Payload = sp_Payload sendPacket\<rparr>\<rparr>)"

text \<open>The first loop of \<open>processStorage\<close>: \<open>sotreMessages\<close> is the accumulator.\<close>

fun collectStoreMessages ::
    "'w env \<Rightarrow> storageReq \<Rightarrow> ReactorChannelMessage list \<Rightarrow> wkdb_Message list \<Rightarrow> 'w \<Rightarrow> wkdb_Message list \<times> 'w" where
  "collectStoreMessages r req [] sotreMessages w = (sotreMessages, w)"
| "collectStoreMessages r req (msg # ms) sotreMessages w =
     (if IsEncrypt msg then collectStoreMessages r req ms sotreMessages w
      else (let (now, w') = time_Now_Unix r w
            in collectStoreMessages r req ms (sotreMessages @ [toStoreMessage req msg now]) w'))"

text \<open>
  The inner loop over \<open>req.messages\<close> for one result: the first message whose
  \<open>MessageId\<close> equals \<open>logId\<close> is rewritten, and the loop breaks.
\<close>

fun setFirstMatch :: "64 word \<Rightarrow> 32 word \<Rightarrow> ReactorChannelMessage list \<Rightarrow> ReactorChannelMessage list" where
  "setFirstMatch logId logIndex [] = []"
| "setFirstMatch logId logIndex (msg # ms) =
     (if MessageId msg = logId
      then msg\<lparr>MessageId := logId, MessageSeq := logIndex\<rparr> # ms
      else msg # setFirstMatch logId logIndex ms)"

text \<open>
  The loop over the results. \<open>int64(result.LogId())\<close> keeps all 64 bits,
  \<open>uint32(result.LogIndex())\<close> the low 32.
\<close>

fun copyResults :: "AppendResult list \<Rightarrow> ReactorChannelMessage list \<Rightarrow> ReactorChannelMessage list" where
  "copyResults [] ms = ms"
| "copyResults (result # results) ms =
     copyResults results (setFirstMatch (LogId result) (ucast (LogIndex result)) ms)"

text \<open>
  The body of the outer loop of \<open>processStorage\<close>, for one request; it returns the
  request with the messages as the loop leaves them.
\<close>

definition processStorage_req :: "'w env \<Rightarrow> storageReq \<Rightarrow> 'w sys \<Rightarrow> (panic + storageReq) \<times> 'w sys" where
  "processStorage_req r req s =
     (let (sotreMessages, w1) = collectStoreMessages r req (st_messages req) [] (world s);
          ((results, err), s2) =
            call (EvAppendMessages (channelId (st_ch req)) (channelType (st_ch req)) sotreMessages)
              (store_AppendMessages r (channelId (st_ch req)) (channelType (st_ch req)) sotreMessages)
              (s\<lparr>world := w1\<rparr>);
          req' = (if 0 < length results
                  then req\<lparr>st_messages := copyResults results (st_messages req)\<rparr>
                  else req);
          reason = (if err \<noteq> None then ReasonError else ReasonSuccess)
      in case go_index (st_messages req') (int (length (st_messages req')) - 1) of
           Inl pn \<Rightarrow> (Inl pn, s2)
         | Inr lastMsg \<Rightarrow>
             (Inr req',
              sub_step (st_ch req')
                \<lparr>UniqueNo = uniqueNo (st_ch req'), ActionType = ChannelActionStorageResp,
                 ca_Index = Index lastMsg, Reason = Some reason,
                 ReasonCode = None, LeaderId = 0,
                 ca_Messages = st_messages req'\<rparr> s2))"

fun processStorage :: "'w env \<Rightarrow> storageReq list \<Rightarrow> 'w sys \<Rightarrow> (panic + storageReq list) \<times> 'w sys" where
  "processStorage r [] s = (Inr [], s)"
| "processStorage r (req # reqs) s =
     (case processStorage_req r req s of
        (Inl pn, s1) \<Rightarrow> (Inl pn, s1)
      | (Inr req', s1) \<Rightarrow>
          (case processStorage r reqs s1 of
             (Inl pn, s2) \<Rightarrow> (Inl pn, s2)
           | (Inr reqs', s2) \<Rightarrow> (Inr (req' # reqs'), s2)))"

subsection \<open>Sendack\<close>

text \<open>
  \<open>nodeFowardSendackPacketMap\<close> is a list of (node id, packets) pairs with one pair per
  key; \<open>map_set\<close> is the assignment \<open>m[k] = v\<close>. A lookup of a missing key gives the nil
  slice.
\<close>

fun map_set :: "'k \<Rightarrow> 'v \<Rightarrow> ('k \<times> 'v) list \<Rightarrow> ('k \<times> 'v) list" where
  "map_set k v [] = [(k, v)]"
| "map_set k v ((k', v') # m) = (if k = k' then (k, v) # m else (k', v') # map_set k v m)"

definition map_get :: "('k \<times> 'v list) list \<Rightarrow> 'k \<Rightarrow> 'v list" where
  "map_get m k = (case map_of m k of None \<Rightarrow> [] | Some v \<Rightarrow> v)"

definition requestForwardSendack ::
    "'w env \<Rightarrow> 64 word \<Rightarrow> ForwardSendackPacket list \<Rightarrow> 'w sys \<Rightarrow> error option \<times> 'w sys" where
  "requestForwardSendack r nodeId packets s =
     (let (data, err) = ForwardSendackPacketSet_Marshal r packets
      in case err of
           Some e \<Rightarrow> (Some e, s)
         | None \<Rightarrow>
             (let ((resp, err1), s1) =
                    call (EvRequestWithContext (Second * 5) nodeId ''/wk/forwardSendack'' data)
                      (cluster_RequestWithContext r (Second * 5) nodeId ''/wk/forwardSendack'' data) s
              in case err1 of
                   Some e \<Rightarrow> (Some e, s1)
                 | None \<Rightarrow>
                     if Status resp \<noteq> Status_OK r
                     then (let err2 = (if 0 < length (Body resp) then errors_New (Body resp)
                                       else fmt_Errorf ''requestForwardSendack failed, status[%d] error''
                                              (Status resp))
                           in (Some err2, s1))
                     else (None, s1)))"

text \<open>The loop over the messages of one request.\<close>

fun sendack_messages ::
    "'w env \<Rightarrow> ReactorChannelMessage list \<Rightarrow> (64 word \<times> ForwardSendackPacket list) list \<Rightarrow> 'w sys
     \<Rightarrow> (64 word \<times> ForwardSendackPacket list) list \<times> 'w sys" where
  "sendack_messages r [] m s = (m, s)"
| "sendack_messages r (msg # ms) m s =
     (if FromUid msg = opts_SystemUID r then sendack_messages r ms m s
      else (let sendack =
                  \<lparr>ack_Framer = sp_Framer (SendPacket msg), ack_MessageID = MessageId msg,
                   ack_MessageSeq = MessageSeq msg, ack_ClientSeq = sp_ClientSeq (SendPacket msg),
                   ack_ClientMsgNo = sp_ClientMsgNo (SendPacket msg),
                   ack_ReasonCode = wkproto_ReasonSuccess\<rparr>
            in if FromNodeId msg = Cluster_NodeId r
               then (let (err, s1) =
                           call (EvWritePacketByConnId (FromUid msg) (FromConnId msg) sendack)
                             (userReactor_writePacketByConnId r (FromUid msg) (FromConnId msg) sendack) s
                     in sendack_messages r ms m s1)
               else (let packets = map_get m (FromNodeId msg);
                         packets' = packets @ [\<lparr>Uid = FromUid msg, DeviceId = FromDeviceId msg,
                                                Sendack = sendack\<rparr>]
                     in sendack_messages r ms (map_set (FromNodeId msg) packets' m) s)))"

text \<open>The loop over the requests.\<close>

fun sendack_reqs ::
    "'w env \<Rightarrow> sendackReq list \<Rightarrow> (64 word \<times> ForwardSendackPacket list) list \<Rightarrow> 'w sys
     \<Rightarrow> (panic + (64 word \<times> ForwardSendackPacket list) list) \<times> 'w sys" where
  "sendack_reqs r [] m s = (Inr m, s)"
| "sendack_reqs r (req # reqs) m s =
     (let (m1, s1) = sendack_messages r (sk_messages req) m s
      in case go_index (sk_messages req) (int (length (sk_messages req)) - 1) of
           Inl pn \<Rightarrow> (Inl pn, s1)
         | Inr lastMsg \<Rightarrow>
             sendack_reqs r reqs m1
               (sub_step (sk_ch req)
                  \<lparr>UniqueNo = uniqueNo (sk_ch req), ActionType = ChannelActionSendackResp,
                   ca_Index = Index lastMsg, Reason = Some ReasonSuccess,
                   ReasonCode = None, LeaderId = 0, ca_Messages = []\<rparr> s1))"

text \<open>
  The loop over the map: the runtime picks the order of the keys; a key it names that the
  map does not hold is passed over.
\<close>

fun forward_sendacks ::
    "'w env \<Rightarrow> (64 word \<times> ForwardSendackPacket list) list \<Rightarrow> 64 word list \<Rightarrow> 'w sys \<Rightarrow> 'w sys" where
  "forward_sendacks r m [] s = s"
| "forward_sendacks r m (nodeId # nodeIds) s =
     (case map_of m nodeId of
        None \<Rightarrow> forward_sendacks r m nodeIds s
      | Some forwardSendackPackets \<Rightarrow>
          (let (err, s1) = requestForwardSendack r nodeId forwardSendackPackets s
           in forward_sendacks r m nodeIds s1))"

definition processSendack :: "'w env \<Rightarrow> sendackReq list \<Rightarrow> 'w sys \<Rightarrow> (panic + unit) \<times> 'w sys" where
  "processSendack r reqs s =
     (case sendack_reqs r reqs [] s of
        (Inl pn, s1) \<Rightarrow> (Inl pn, s1)
      | (Inr m, s1) \<Rightarrow>
          (let (order, w') = map_range_order r (map fst m) (world s1)
           in (Inr (), forward_sendacks r m order (s1\<lparr>world := w'\<rparr>))))"

subsection \<open>Deliver\<close>

definition handleDeliver :: "'w env \<Rightarrow> deliverReq \<Rightarrow> 'w sys \<Rightarrow> 'w sys" where
  "handleDeliver r req s = snd (call (EvDeliver req) (deliverManager_deliver r req) s)"

fun processDeliver :: "'w env \<Rightarrow> deliverReq list \<Rightarrow> 'w sys \<Rightarrow> (panic + unit) \<times> 'w sys" where
  "processDeliver r [] s = (Inr (), s)"
| "processDeliver r (req # reqs) s =
     (let s1 = handleDeliver r req s;
          reason = ReasonSuccess
      in case go_index (d_messages req) (int (length (d_messages req)) - 1) of
           Inl pn \<Rightarrow> (Inl pn, s1)
         | Inr lastMsg \<Rightarrow>
             processDeliver r reqs
               (sub_step (d_ch req)
                  \<lparr>UniqueNo = uniqueNo (d_ch req), ActionType = ChannelActionDeliverResp,
                   ca_Index = Index lastMsg, Reason = Some reason,
                   ReasonCode = None, LeaderId = 0, ca_Messages = []\<rparr> s1))"

section \<open>The rules of the spec and example inputs\<close>


text \<open>
  A leader whose outbox is empty and whose committed version 7 is ahead of its applied
  version 5, and a follower that has heard of leader version 2 while its own is 1.
\<close>

definition node_committed :: Node where
  "node_committed = node0\<lparr>role := RoleLeader, leaderConfigVersion := 7, localConfigVersion := 7,
                          committedConfigVersion := 7, appliedConfigVersion := 5\<rparr>"

definition node_behind :: Node where
  "node_behind = node0\<lparr>leaderConfigVersion := 2\<rparr>"

definition rt0 :: "nat runtime" where
  "rt0 = \<lparr>rand_Int = (\<lambda>n w. (3, Suc w)), growslice = (\<lambda>c. 2 * c + 1),
          newSync = (\<lambda>n. \<lparr>Type = EventSync, From = NodeId (opts n), To = leader (state n),
                           Term = term' (state n), ConfigVersion = localConfigVersion n,
                           ConfigData = []\<rparr>),
          newApply = (\<lambda>n. \<lparr>Type = EventApply, From = NodeId (opts n), To = NodeId (opts n),
                            Term = term' (state n), ConfigVersion = committedConfigVersion n,
                            ConfigData = []\<rparr>)\<rparr>"

text \<open>
  A reactor whose collaborators answer from fixed tables: \<open>mallory\<close> is on every
  denylist, \<open>eve\<close> subscribes to nothing, only channel \<open>vip\<close> has an allowlist and only
  \<open>alice\<close> is on it; nodes 1 and 2 are online; the leader of channel \<open>lost\<close> cannot be
  resolved. The world is the clock.
\<close>

definition env0 :: "nat env" where
  "env0 = \<lparr>ChannelTypePerson = 1, ChannelTypeInfo = 6, WhitelistOffOfPerson = False,
           opts_SystemUID = ''system'', Cluster_NodeId = 1,
           Status_OK = 0, errCodeNotIsChannelLeader = 1,
           systemUIDManager_SystemUID = (\<lambda>uid w. (uid = ''system'', w)),
           store_ExistDenylist = (\<lambda>cid ct uid w. ((uid = ''mallory'', None), w)),
           store_ExistSubscriber = (\<lambda>cid ct uid w. ((uid \<noteq> ''eve'', None), w)),
           store_HasAllowlist = (\<lambda>cid ct w. ((cid = ''vip'', None), w)),
           store_ExistAllowlist = (\<lambda>cid ct uid w. ((uid = ''alice'', None), w)),
           store_AppendMessages =
             (\<lambda>cid ct ms w. ((map (\<lambda>m. \<lparr>LogId = MessageID (RecvPacket m), LogIndex = 7\<rparr>) ms, None), w)),
           time_Now_Unix = (\<lambda>w. (of_nat w, Suc w)),
           clusterServer_NodeIsOnline = (\<lambda>n w. (n = 1 \<or> n = 2, w)),
           cluster_LeaderIdOfChannel =
             (\<lambda>t cid ct w. (if cid = ''lost'' then (0, Some (errors_New ''no leader'')) else (2, None), w)),
           cluster_LeaderOfChannel =
             (\<lambda>t cid ct w. (if cid = ''lost'' then (0, Some (errors_New ''no leader'')) else (2, None), w)),
           cluster_RequestWithContext = (\<lambda>t n path data w. ((\<lparr>Status = 0, Body = []\<rparr>, None), w)),
           ChannelFowardReq_Marshal = (\<lambda>req. ([], None)),
           ForwardSendackPacketSet_Marshal = (\<lambda>ps. ([], None)),
           userReactor_writePacketByConnId = (\<lambda>uid conn p w. (None, w)),
           deliverManager_deliver = (\<lambda>req w. ((), w)),
           map_range_order = (\<lambda>ks w. (ks, w))\<rparr>"

definition sys0 :: "nat sys" where
  "sys0 = \<lparr>world = 0, trace = []\<rparr>"

definition ch_group :: channel where
  "ch_group = \<lparr>key = ''g1-2'', channelId = ''g1'', channelType = 2, uniqueNo = ''u1'',
               info = \<lparr>Ban = False, Disband = False\<rparr>\<rparr>"

definition msg0 :: ReactorChannelMessage where
  "msg0 = \<lparr>FromConnId = 42, FromUid = ''bob'', FromDeviceId = ''d1'', FromNodeId = 1,
           SendPacket = \<lparr>sp_Framer = \<lparr>RedDot = True, SyncOnce = False, NoPersist = False\<rparr>,
                         sp_ClientMsgNo = ''c1'', sp_ClientSeq = 1, sp_ChannelType = 2,
                         sp_Expire = 0, sp_Payload = ''hi''\<rparr>,
           MessageId = 100, MessageSeq = 0, IsEncrypt = False, Index = 5\<rparr>"

text \<open>A permission request of \<open>bob\<close> on the group channel, banned.\<close>

definition req_ban :: permissionReq where
  "req_ban = \<lparr>fromUid = ''bob'', p_ch = ch_group\<lparr>info := \<lparr>Ban = True, Disband = False\<rparr>\<rparr>,
              p_messages = [msg0]\<rparr>"

text \<open>
  A shard whose registry holds one channel, of incarnation \<open>n2\<close>; \<open>step\<close> counts
  the actions a channel has taken in. One action for that channel carries no \<open>No\<close>,
  another the \<open>No\<close> of an earlier incarnation.
\<close>

definition shard_env0 :: "nat shard_env" where
  "shard_env0 = \<lparr>ChannelToKey = (\<lambda>cid ct. cid), step = (\<lambda>c a. c\<lparr>rest := Suc (rest c)\<rparr>)\<rparr>"

definition chan0 :: "nat Channel" where
  "chan0 = \<lparr>c_key = ''g1'', no = ''n2'', rest = 0\<rparr>"

definition shard0 :: "nat shard" where
  "shard0 = \<lparr>channels = [''g1'' \<mapsto> chan0], stepped = []\<rparr>"

definition act_noNo :: reactor_ChannelAction where
  "act_noNo = \<lparr>ra_Type = ChannelActionOther 0, ra_ChannelId = ''g1'', ra_ChannelType = 2, No = []\<rparr>"

definition act_stale :: reactor_ChannelAction where
  "act_stale = \<lparr>ra_Type = ChannelActionOther 0, ra_ChannelId = ''g1'', ra_ChannelType = 2, No = ''n1''\<rparr>"

text \<open>
  Two forward requests whose recorded leader, node 9, is offline: for channel \<open>lost\<close>
  the leader cannot be resolved again, for the group channel it is node 2.
\<close>

definition req_lost :: forwardReq where
  "req_lost = \<lparr>f_ch = ch_group\<lparr>key := ''lost-2'', channelId := ''lost''\<rparr>, leaderId = 9,
               f_messages = [msg0]\<rparr>"

definition req_moved :: forwardReq where
  "req_moved = \<lparr>f_ch = ch_group, leaderId = 9, f_messages = [msg0]\<rparr>"

text \<open>
  A storage request with one plain and one still encrypted message, and requests of the
  four kinds with no message.
\<close>

definition msg_enc :: ReactorChannelMessage where
  "msg_enc = msg0\<lparr>MessageId := 101, IsEncrypt := True, Index := 6\<rparr>"

definition req_store :: storageReq where
  "req_store = \<lparr>st_ch = ch_group, st_messages = [msg0, msg_enc]\<rparr>"

definition preq_empty :: permissionReq where
  "preq_empty = \<lparr>fromUid = ''bob'', p_ch = ch_group, p_messages = []\<rparr>"

definition sreq_empty :: storageReq where
  "sreq_empty = \<lparr>st_ch = ch_group, st_messages = []\<rparr>"

definition kreq_empty :: sendackReq where
  "kreq_empty = \<lparr>sk_ch = ch_group, sk_messages = []\<rparr>"

definition kreq_one :: sendackReq where
  "kreq_one = \<lparr>sk_ch = ch_group, sk_messages = [msg0]\<rparr>"

definition dreq_empty :: deliverReq where
  "dreq_empty = \<lparr>d_ch = ch_group, d_channelId = ''g1'', d_channelType = 2, channelKey = ''g1-2'',
                 tagKey = ''t1'', d_messages = []\<rparr>"

text \<open>
  Two readings of a run of the storage worker: the results the store returned for a
  request, and the calls of \<open>AppendMessages\<close> in a trace, each with its arguments.
\<close>

definition appendResults :: "'w env \<Rightarrow> storageReq \<Rightarrow> 'w sys \<Rightarrow> AppendResult list" where
  "appendResults r req s =
     (let (sotreMessages, w1) = collectStoreMessages r req (st_messages req) [] (world s)
      in fst (fst (store_AppendMessages r (channelId (st_ch req)) (channelType (st_ch req))
                     sotreMessages w1)))"

fun appended :: "event list \<Rightarrow> (string \<times> 8 word \<times> wkdb_Message list) list" where
  "appended [] = []"
| "appended (EvAppendMessages cid ct ms # evs) = (cid, ct, ms) # appended evs"
| "appended (ev # evs) = appended evs"

section \<open>Properties of the config node\<close>

lemma elems_go_append:
  "go_append g h s x = (s', h') \<Longrightarrow> elems h' s' = elems h s @ [x]"
  by (auto simp: go_append_def elems_def Let_def split: if_splits)

lemma elems_go_append_other:
  "go_append g h s x = (s', h') \<Longrightarrow> len t \<le> len s \<Longrightarrow> ptr t = ptr s \<Longrightarrow> elems h' t = elems h t"
  by (auto simp: go_append_def elems_def Let_def split: if_splits)

text \<open>
  What \<open>Ready\<close> returns, in every state: the staged outbox, followed by the Apply
  message when the committed version is ahead of the applied one. The Sync message goes
  to the node's own outbox and is not among the returned messages.
\<close>

lemma Ready_Messages:
  assumes R: "Ready rt n h = (rd, n', h')"
  shows "elems h' (Messages rd) =
           elems h (msgs n)
           @ (if appliedConfigVersion n < committedConfigVersion n then [newApply rt n'] else [])"
proof -
  obtain n1 h1 where step1:
    "(if \<not> isLeader n
      then (if leaderConfigVersion n \<noteq> localConfigVersion n
            then (let (s, h') = go_append (growslice rt) h (msgs n) (newSync rt n)
                  in (n\<lparr>msgs := s\<rparr>, h'))
            else (n, h))
      else (n, h)) = (n1, h1)"
    by fastforce
  have keep: "elems h1 (msgs n) = elems h (msgs n)"
    using step1 by (auto split: if_splits prod.splits intro: elems_go_append_other)
  have vers: "appliedConfigVersion n1 = appliedConfigVersion n"
    "committedConfigVersion n1 = committedConfigVersion n"
    using step1 by (auto split: if_splits prod.splits)
  have n': "n' = n1"
    using R step1 by (auto simp: Ready_def Let_def split: if_splits prod.splits)
  show ?thesis
    using R step1 keep vers n'
    by (auto simp: Ready_def Let_def split: if_splits prod.splits dest: elems_go_append)
qed

text \<open>What \<open>HasReady\<close> tests, in every state.\<close>

lemma HasReady_iff:
  "HasReady n \<longleftrightarrow>
     0 < len (msgs n) \<or> (\<not> isLeader n \<and> leaderConfigVersion n \<noteq> localConfigVersion n)"
  by (simp add: HasReady_def)

text \<open>
  C1. \<open>HasReady\<close> is claimed to be true whenever the committed config version is greater
  than the applied one. On a leader with an empty outbox, committed version 7 and applied
  version 5, \<open>HasReady\<close> returns false, while \<open>Ready\<close> in that same state returns an
  Apply message: \<open>HasReady\<close> has no branch for the committed version.
\<close>

theorem HasReady_ignores_committed:
  "\<not> HasReady node_committed
   \<and> appliedConfigVersion node_committed < committedConfigVersion node_committed
   \<and> (case Ready rt node_committed h of
         (rd, n', h') \<Rightarrow> elems h' (Messages rd) = [newApply rt node_committed])"
  by (simp add: HasReady_def Ready_def node_committed_def node0_def isLeader_def nil_slice_def
      go_append_def elems_def Let_def)

text \<open>
  C2. \<open>Ready\<close> is claimed to return the staged outbox plus a fresh Sync message when the
  node is not leader and the leader's config version differs from the local one. On a
  follower with an empty outbox, leader version 2 and local version 1, the returned
  \<open>Ready\<close> holds no message at all: the Sync message is appended to the node's outbox
  \<open>n.msgs\<close>, not to \<open>rd.Messages\<close>.
\<close>

theorem Ready_omits_Sync:
  "\<not> isLeader node_behind
   \<and> leaderConfigVersion node_behind \<noteq> localConfigVersion node_behind
   \<and> (case Ready rt node_behind h of
         (rd, n', h') \<Rightarrow>
           elems h' (Messages rd) = [] \<and> elems h' (msgs n') = [newSync rt node_behind])"
  by (simp add: Ready_def node_behind_def node0_def isLeader_def nil_slice_def go_append_def
      elems_def Let_def)

text \<open>
  The random draw in \<open>reset\<close> needs a positive \<open>ElectionTimeoutTick\<close>. With a
  timeout that is not positive \<open>becomeFollower\<close>, the last step of \<open>NewNode\<close>, aborts
  inside \<open>crypto/rand\<close>, so a node that \<open>NewNode\<close> has returned was built with a
  positive timeout; the other two transitions abort there too, once past their own guard.
\<close>

lemma becomeFollower_needs_timeout:
  "ElectionTimeoutTick (opts n) \<le>s 0 \<Longrightarrow>
   becomeFollower rt t l n w = Inl (LibPanic ''crypto/rand: argument to Int is <= 0'')"
  by (simp add: becomeFollower_def reset_def resetRandomizedElectionTimeout_def Intn_def Let_def)

lemma become_needs_timeout:
  "ElectionTimeoutTick (opts n) \<le>s 0 \<Longrightarrow>
   (role n \<noteq> RoleFollower \<longrightarrow>
      becomeLeader rt n w = Inl (LibPanic ''crypto/rand: argument to Int is <= 0''))
   \<and> (role n \<noteq> RoleLeader \<longrightarrow>
      becomeCandidate rt n w = Inl (LibPanic ''crypto/rand: argument to Int is <= 0''))"
  by (simp add: becomeLeader_def becomeCandidate_def reset_def resetRandomizedElectionTimeout_def
      Intn_def Let_def)

text \<open>
  C9. \<open>becomeLeader\<close> on a Follower and \<open>becomeCandidate\<close> on a Leader abort with the
  panic of the forbidden transition, whatever the rest of the node is. On a node with a
  positive \<open>ElectionTimeoutTick\<close> (every node that \<open>NewNode\<close> has returned), each of
  them returns from every other role, with the node in the new role, the term kept
  (leader) or advanced by one (candidate), and the leader and vote fields set.
\<close>

theorem become_abort_iff_forbidden:
  "(role n = RoleFollower \<longrightarrow>
      becomeLeader rt n w = Inl (LogPanic ''invalid transition [follower -> leader]''))
   \<and> (role n \<noteq> RoleFollower \<and> 0 <s ElectionTimeoutTick (opts n) \<longrightarrow>
      (\<exists>n' w'. becomeLeader rt n w = Inr (n', w') \<and> role n' = RoleLeader
         \<and> state n' = \<lparr>leader = NodeId (opts n), term' = term' (state n), voteFor = None_id\<rparr>))
   \<and> (role n = RoleLeader \<longrightarrow>
      becomeCandidate rt n w = Inl (LogPanic ''invalid transition [leader -> candidate]''))
   \<and> (role n \<noteq> RoleLeader \<and> 0 <s ElectionTimeoutTick (opts n) \<longrightarrow>
      (\<exists>n' w'. becomeCandidate rt n w = Inr (n', w') \<and> role n' = RoleCandidate
         \<and> state n' = \<lparr>leader = None_id, term' = term' (state n) + 1, voteFor = NodeId (opts n)\<rparr>))"
  by (simp add: becomeLeader_def becomeCandidate_def Panic_def reset_def
      resetRandomizedElectionTimeout_def Intn_def Let_def signed.not_le [symmetric]
      split: prod.splits)

theorem become_abort_iff_forbidden_witness:
  "becomeLeader rt0 node0 0 = Inl (LogPanic ''invalid transition [follower -> leader]'')
   \<and> (\<exists>n' w'. becomeCandidate rt0 node0 0 = Inr (n', w') \<and> role n' = RoleCandidate)
   \<and> (\<exists>n' w'. becomeLeader rt0 (node0\<lparr>role := RoleCandidate\<rparr>) 0 = Inr (n', w')
         \<and> role n' = RoleLeader)
   \<and> becomeCandidate rt0 (node0\<lparr>role := RoleLeader\<rparr>) 0
       = Inl (LogPanic ''invalid transition [leader -> candidate]'')"
proof -
  have pos: "0 <s ElectionTimeoutTick (opts node0)"
    by (simp add: node0_def opts0_def word_sless_alt)
  show ?thesis
    using pos become_abort_iff_forbidden [of node0 rt0 0]
      become_abort_iff_forbidden [of "node0\<lparr>role := RoleCandidate\<rparr>" rt0 0]
      become_abort_iff_forbidden [of "node0\<lparr>role := RoleLeader\<rparr>" rt0 0]
    by (auto simp: node0_def)
qed

section \<open>Properties of the stage workers\<close>



text \<open>
  C4. A permission check that ends without a store error in a denial is claimed to be
  handed back as a success that carries the denial's reason code. For \<open>bob\<close> on the
  banned group channel the check returns Ban without an error, and the
  PermissionCheckResp action that \<open>processPermission\<close> hands to the shard carries
  \<open>ReasonCode = Ban\<close> with \<open>Reason = ReasonError\<close>.
\<close>

theorem processPermission_denial_is_error:
  "processPermission env0 req_ban sys0
     = (Inr (),
        \<lparr>world = 0,
         trace = [EvSystemUID ''bob'',
                  EvStep (p_ch req_ban)
                    \<lparr>UniqueNo = ''u1'', ActionType = ChannelActionPermissionCheckResp,
                     ca_Index = 5, Reason = Some ReasonError, ReasonCode = Some wkproto_ReasonBan,
                     LeaderId = 0, ca_Messages = []\<rparr>]\<rparr>)"
  by (simp add: processPermission_def hasPermission_def call_def sub_step_def go_index_def
      env0_def sys0_def req_ban_def ch_group_def msg0_def)

text \<open>
  C8. For a forward request whose recorded leader is offline, a LeaderChange action is
  claimed to be emitted always. For channel \<open>lost\<close> the leader is offline and cannot be
  resolved again (\<open>LeaderIdOfChannel\<close> fails and yields id 0): \<open>processForward\<close> calls
  \<open>NodeIsOnline\<close> and \<open>LeaderIdOfChannel\<close>, and hands back the ForwardResp with
  \<open>Reason = ReasonError\<close> alone, with no LeaderChange before it.
\<close>

theorem processForward_offline_counterexample:
  "fst (clusterServer_NodeIsOnline env0 (leaderId req_lost) (world sys0)) = False
   \<and> processForward env0 [req_lost] sys0
     = \<lparr>world = 0,
        trace = [EvNodeIsOnline 9, EvLeaderIdOfChannel Second ''lost'' 2,
                 EvStep (f_ch req_lost)
                   \<lparr>UniqueNo = ''u1'', ActionType = ChannelActionForwardResp, ca_Index = 0,
                    Reason = Some ReasonError, ReasonCode = None, LeaderId = 0,
                    ca_Messages = [msg0]\<rparr>]\<rparr>"
  by (simp add: processForward_req_def call_def sub_step_def env0_def sys0_def req_lost_def
      ch_group_def)

text \<open>
  C8, as amended. When \<open>NodeIsOnline\<close> reports the recorded leader offline, the
  request is handled by exactly these calls, in this order: \<open>NodeIsOnline\<close>;
  \<open>LeaderIdOfChannel\<close> with a deadline of one second; a LeaderChange action that
  carries the id \<open>LeaderIdOfChannel\<close> returned, if and only if that id is greater than
  0; the ForwardResp action with the request's messages and \<open>Reason = ReasonError\<close>. No
  RPC is issued. The loop then goes on with the remaining requests.
\<close>

theorem processForward_offline:
  fixes r :: "'w env" and s :: "'w sys" and req :: forwardReq
  defines "q0 \<equiv> clusterServer_NodeIsOnline r (leaderId req) (world s)"
  defines "q1 \<equiv> cluster_LeaderIdOfChannel r Second (channelId (f_ch req))
                   (channelType (f_ch req)) (snd q0)"
  assumes offline: "\<not> fst q0"
  shows "processForward r (req # reqs) s =
           processForward r reqs
             \<lparr>world = snd q1,
              trace = trace s
                @ [EvNodeIsOnline (leaderId req),
                   EvLeaderIdOfChannel Second (channelId (f_ch req)) (channelType (f_ch req))]
                @ (if 0 < fst (fst q1)
                   then [EvStep (f_ch req)
                           \<lparr>UniqueNo = uniqueNo (f_ch req), ActionType = ChannelActionLeaderChange,
                            ca_Index = 0, Reason = None, ReasonCode = None,
                            LeaderId = fst (fst q1), ca_Messages = []\<rparr>]
                   else [])
                @ [EvStep (f_ch req)
                     \<lparr>UniqueNo = uniqueNo (f_ch req), ActionType = ChannelActionForwardResp,
                      ca_Index = 0, Reason = Some ReasonError, ReasonCode = None,
                      LeaderId = 0, ca_Messages = f_messages req\<rparr>]\<rparr>"
proof -
  obtain online w1 where n: "clusterServer_NodeIsOnline r (leaderId req) (world s) = (online, w1)"
    by (cases "clusterServer_NodeIsOnline r (leaderId req) (world s)")
  obtain l e w2 where l:
    "cluster_LeaderIdOfChannel r Second (channelId (f_ch req)) (channelType (f_ch req)) w1
       = ((l, e), w2)"
    by (metis surj_pair)
  have "\<not> online" using offline n by (simp add: q0_def)
  then show ?thesis
    using n l unfolding q0_def q1_def
    by (cases e) (simp_all add: processForward_req_def call_def sub_step_def)
qed

theorem processForward_offline_witness:
  "processForward env0 [req_moved] sys0
     = \<lparr>world = 0,
        trace = [EvNodeIsOnline 9, EvLeaderIdOfChannel Second ''g1'' 2,
                 EvStep ch_group
                   \<lparr>UniqueNo = ''u1'', ActionType = ChannelActionLeaderChange, ca_Index = 0,
                    Reason = None, ReasonCode = None, LeaderId = 2,
                    ca_Messages = []\<rparr>,
                 EvStep ch_group
                   \<lparr>UniqueNo = ''u1'', ActionType = ChannelActionForwardResp, ca_Index = 0,
                    Reason = Some ReasonError, ReasonCode = None, LeaderId = 0,
                    ca_Messages = [msg0]\<rparr>]\<rparr>"
proof -
  have off: "\<not> fst (clusterServer_NodeIsOnline env0 (leaderId req_moved) (world sys0))"
    by (simp add: env0_def req_moved_def)
  show ?thesis
    using processForward_offline [OF off, of "[]"]
    by (simp add: env0_def sys0_def req_moved_def ch_group_def)
qed

lemma length_setFirstMatch [simp]: "length (setFirstMatch lid lix ms) = length ms"
  by (induction ms) simp_all

lemma length_copyResults [simp]: "length (copyResults rs ms) = length ms"
  by (induction rs arbitrary: ms) simp_all

lemma copyResults_Nil [simp]: "copyResults rs [] = []"
  by (induction rs) simp_all

lemma setFirstMatch_nth:
  "i < length ms \<Longrightarrow>
   setFirstMatch lid lix ms ! i = ms ! i
   \<or> (MessageId (ms ! i) = lid \<and> setFirstMatch lid lix ms ! i = (ms ! i)\<lparr>MessageSeq := lix\<rparr>)"
proof (induction ms arbitrary: i)
  case Nil
  then show ?case by simp
next
  case (Cons m ms)
  then show ?case by (cases i) auto
qed

lemma setFirstMatch_MessageId:
  "i < length ms \<Longrightarrow> MessageId (setFirstMatch lid lix ms ! i) = MessageId (ms ! i)"
  using setFirstMatch_nth [of i ms lid lix] by auto

lemma copyResults_nth:
  "i < length ms \<Longrightarrow>
   copyResults rs ms ! i = ms ! i
   \<or> (\<exists>result\<in>set rs. MessageId (ms ! i) = LogId result
        \<and> copyResults rs ms ! i
            = (ms ! i)\<lparr>MessageId := LogId result, MessageSeq := ucast (LogIndex result)\<rparr>)"
proof (induction rs arbitrary: ms)
  case Nil
  then show ?case by simp
next
  case (Cons a rs)
  let ?ms' = "setFirstMatch (LogId a) (ucast (LogIndex a)) ms"
  have i': "i < length ?ms'" using Cons.prems by simp
  from Cons.IH [OF i']
  consider (same) "copyResults rs ?ms' ! i = ?ms' ! i"
    | (upd) result where "result \<in> set rs" "MessageId (?ms' ! i) = LogId result"
        "copyResults rs ?ms' ! i
           = (?ms' ! i)\<lparr>MessageId := LogId result, MessageSeq := ucast (LogIndex result)\<rparr>"
    by blast
  then show ?case
  proof cases
    case same
    then show ?thesis
      using setFirstMatch_nth [OF Cons.prems, of "LogId a" "ucast (LogIndex a)"] by auto
  next
    case upd
    then show ?thesis
      using setFirstMatch_nth [OF Cons.prems, of "LogId a" "ucast (LogIndex a)"]
        setFirstMatch_MessageId [OF Cons.prems, of "LogId a" "ucast (LogIndex a)"]
      by auto
  qed
qed

lemma processStorage_req_messages:
  "processStorage_req r req s = (Inr req', s') \<Longrightarrow>
   st_ch req' = st_ch req \<and> st_messages req' = copyResults (appendResults r req s) (st_messages req)"
  by (auto simp: processStorage_req_def appendResults_def call_def Let_def
      split: prod.splits sum.splits if_splits)

text \<open>
  C6. When the storage worker returns for a request, the request has as many messages as
  before, and each of them is either unchanged or has the \<open>MessageId\<close> and
  \<open>MessageSeq\<close> of a result the store returned whose \<open>LogId\<close> equals the \<open>MessageId\<close>
  the message had; a message whose \<open>MessageId\<close> equals the \<open>LogId\<close> of no result is
  unchanged.
\<close>

theorem processStorage_copies_only_matching:
  assumes "processStorage_req r req s = (Inr req', s')"
  shows "length (st_messages req') = length (st_messages req)
     \<and> (\<forall>i<length (st_messages req).
          (st_messages req' ! i = st_messages req ! i
           \<or> (\<exists>result\<in>set (appendResults r req s).
                 MessageId (st_messages req ! i) = LogId result
                 \<and> st_messages req' ! i
                     = (st_messages req ! i)\<lparr>MessageId := LogId result,
                                              MessageSeq := ucast (LogIndex result)\<rparr>))
          \<and> ((\<forall>result\<in>set (appendResults r req s). MessageId (st_messages req ! i) \<noteq> LogId result)
               \<longrightarrow> st_messages req' ! i = st_messages req ! i))"
proof -
  have m: "st_messages req' = copyResults (appendResults r req s) (st_messages req)"
    using processStorage_req_messages [OF assms] by simp
  show ?thesis
    unfolding m using copyResults_nth [of _ "st_messages req" "appendResults r req s"]
    by auto
qed

theorem processStorage_copies_only_matching_witness:
  "\<exists>req' s'. processStorage_req env0 req_store sys0 = (Inr req', s')
      \<and> appendResults env0 req_store sys0 = [\<lparr>LogId = 100, LogIndex = 7\<rparr>]
      \<and> length (st_messages req') = 2
      \<and> st_messages req' ! 0 = msg0\<lparr>MessageSeq := 7\<rparr>
      \<and> st_messages req' ! 1 = msg_enc"
proof -
  obtain req' s' where run: "processStorage_req env0 req_store sys0 = (Inr req', s')"
    and first: "st_messages req' ! 0 = msg0\<lparr>MessageSeq := 7\<rparr>"
    by (simp add: processStorage_req_def call_def sub_step_def go_index_def toStoreMessage_def
        env0_def sys0_def req_store_def msg0_def msg_enc_def ch_group_def)
  have res: "appendResults env0 req_store sys0 = [\<lparr>LogId = 100, LogIndex = 7\<rparr>]"
    by (simp add: appendResults_def toStoreMessage_def env0_def sys0_def req_store_def msg0_def
        msg_enc_def ch_group_def)
  have "length (st_messages req') = 2 \<and> st_messages req' ! 1 = msg_enc"
    using processStorage_copies_only_matching [OF run] res
    by (auto simp: req_store_def msg_enc_def msg0_def)
  then show ?thesis using run first res by simp
qed

lemma collectStoreMessages_filter:
  "\<exists>ts. length ts = length (filter (\<lambda>m. \<not> IsEncrypt m) ms)
      \<and> fst (collectStoreMessages r req ms acc w)
          = acc @ map2 (toStoreMessage req) (filter (\<lambda>m. \<not> IsEncrypt m) ms) ts"
proof (induction ms arbitrary: acc w)
  case Nil
  then show ?case by simp
next
  case (Cons m ms)
  show ?case
  proof (cases "IsEncrypt m")
    case True
    then show ?thesis using Cons.IH [of acc w] by simp
  next
    case False
    obtain now w' where t: "time_Now_Unix r w = (now, w')" by (cases "time_Now_Unix r w")
    obtain ts where ts: "length ts = length (filter (\<lambda>m. \<not> IsEncrypt m) ms)"
      "fst (collectStoreMessages r req ms (acc @ [toStoreMessage req m now]) w')
         = (acc @ [toStoreMessage req m now])
           @ map2 (toStoreMessage req) (filter (\<lambda>m. \<not> IsEncrypt m) ms) ts"
      using Cons.IH [of "acc @ [toStoreMessage req m now]" w'] by blast
    show ?thesis
      using False t ts by (intro exI [of _ "now # ts"]) simp
  qed
qed

lemma appended_append [simp]: "appended (xs @ ys) = appended xs @ appended ys"
  by (induction xs rule: appended.induct) simp_all

text \<open>
  C7. For every storage request the worker calls \<open>AppendMessages\<close> exactly once, for the
  request's channel, and the list it passes holds, in their order, the store messages made
  from the request's messages whose \<open>IsEncrypt\<close> flag is false (each with the clock
  reading taken for it), and nothing else.
\<close>

theorem processStorage_appends_unencrypted:
  "\<exists>ts. length ts = length (filter (\<lambda>m. \<not> IsEncrypt m) (st_messages req))
      \<and> appended (trace (snd (processStorage_req r req s)))
          = appended (trace s)
            @ [(channelId (st_ch req), channelType (st_ch req),
                map2 (toStoreMessage req) (filter (\<lambda>m. \<not> IsEncrypt m) (st_messages req)) ts)]"
proof -
  obtain ts where ts: "length ts = length (filter (\<lambda>m. \<not> IsEncrypt m) (st_messages req))"
    "fst (collectStoreMessages r req (st_messages req) [] (world s))
       = map2 (toStoreMessage req) (filter (\<lambda>m. \<not> IsEncrypt m) (st_messages req)) ts"
    using collectStoreMessages_filter [of "st_messages req" r req "[]" "world s"] by auto
  have "appended (trace (snd (processStorage_req r req s)))
          = appended (trace s)
            @ [(channelId (st_ch req), channelType (st_ch req),
                fst (collectStoreMessages r req (st_messages req) [] (world s)))]"
    by (simp add: processStorage_req_def call_def sub_step_def Let_def
        split: prod.splits sum.splits)
  then show ?thesis using ts by auto
qed

lemma go_index_Nil: "go_index [] i = Inl (IndexOutOfRange i 0)"
  by (simp add: go_index_def)

lemma go_index_last:
  "go_index xs (int (length xs) - 1)
     = (if xs = [] then Inl (IndexOutOfRange (- 1) 0) else Inr (last xs))"
  by (cases xs rule: rev_cases) (simp_all add: go_index_def nat_diff_distrib')

lemma copyResults_Nil_iff [simp]: "copyResults rs ms = [] \<longleftrightarrow> ms = []"
  using length_copyResults [of rs ms] by (metis length_0_conv)

lemma processPermission_empty:
  "p_messages req = [] \<Longrightarrow> fst (processPermission r req s) = Inl (IndexOutOfRange (- 1) 0)"
  by (simp add: processPermission_def go_index_Nil Let_def split: prod.splits option.splits)

lemma processStorage_req_empty:
  "st_messages req = [] \<Longrightarrow> fst (processStorage_req r req s) = Inl (IndexOutOfRange (- 1) 0)"
  by (simp add: processStorage_req_def go_index_Nil Let_def split: prod.splits)

lemma processStorage_req_nonempty:
  "st_messages req \<noteq> [] \<Longrightarrow> \<exists>req'. fst (processStorage_req r req s) = Inr req'"
  by (simp add: processStorage_req_def go_index_last Let_def split: prod.splits)

lemma processStorage_empty:
  "\<exists>req\<in>set reqs. st_messages req = [] \<Longrightarrow>
   fst (processStorage r reqs s) = Inl (IndexOutOfRange (- 1) 0)"
proof (induction reqs arbitrary: s)
  case Nil
  then show ?case by simp
next
  case (Cons req reqs)
  show ?case
  proof (cases "st_messages req = []")
    case True
    then show ?thesis
      using processStorage_req_empty [of req r s]
      by (cases "processStorage_req r req s") (auto split: sum.splits)
  next
    case False
    then obtain req' s1 where 1: "processStorage_req r req s = (Inr req', s1)"
      using processStorage_req_nonempty [of req r s]
      by (cases "processStorage_req r req s") auto
    have "\<exists>req\<in>set reqs. st_messages req = []" using Cons.prems False by auto
    from Cons.IH [OF this, of s1] show ?thesis
      using 1 by (cases "processStorage r reqs s1") (auto split: sum.splits)
  qed
qed

lemma sendack_reqs_empty:
  "\<exists>req\<in>set reqs. sk_messages req = [] \<Longrightarrow>
   fst (sendack_reqs r reqs m s) = Inl (IndexOutOfRange (- 1) 0)"
proof (induction reqs arbitrary: m s)
  case Nil
  then show ?case by simp
next
  case (Cons req reqs)
  obtain m1 s1 where 1: "sendack_messages r (sk_messages req) m s = (m1, s1)"
    by (cases "sendack_messages r (sk_messages req) m s")
  show ?case
  proof (cases "sk_messages req = []")
    case True
    then show ?thesis by (simp add: go_index_def)
  next
    case False
    then have "\<exists>req\<in>set reqs. sk_messages req = []" using Cons.prems by auto
    from Cons.IH [OF this] show ?thesis
      using False 1 by (simp add: go_index_last)
  qed
qed

lemma processSendack_empty:
  "\<exists>req\<in>set reqs. sk_messages req = [] \<Longrightarrow>
   fst (processSendack r reqs s) = Inl (IndexOutOfRange (- 1) 0)"
  using sendack_reqs_empty [of reqs r "[]" s]
  by (cases "sendack_reqs r reqs [] s") (auto simp: processSendack_def split: sum.splits)

lemma processDeliver_empty:
  "\<exists>req\<in>set reqs. d_messages req = [] \<Longrightarrow>
   fst (processDeliver r reqs s) = Inl (IndexOutOfRange (- 1) 0)"
proof (induction reqs arbitrary: s)
  case Nil
  then show ?case by simp
next
  case (Cons req reqs)
  show ?case
  proof (cases "d_messages req = []")
    case True
    then show ?thesis by (simp add: go_index_def Let_def)
  next
    case False
    then have "\<exists>req\<in>set reqs. d_messages req = []" using Cons.prems by auto
    from Cons.IH [OF this] show ?thesis
      using False by (simp add: go_index_last Let_def)
  qed
qed

text \<open>
  C10. A permission request with no message, and a batch of storage, sendack or deliver
  requests one of which has no message, makes the worker abort with the runtime error of
  reading index \<open>-1\<close> of a slice of length 0: each of the four workers reads the last
  message of a request without a check that there is one.
\<close>

theorem workers_abort_on_empty_messages:
  "(p_messages preq = [] \<longrightarrow>
      fst (processPermission r preq s) = Inl (IndexOutOfRange (- 1) 0))
   \<and> ((\<exists>req\<in>set sreqs. st_messages req = []) \<longrightarrow>
      fst (processStorage r sreqs s) = Inl (IndexOutOfRange (- 1) 0))
   \<and> ((\<exists>req\<in>set kreqs. sk_messages req = []) \<longrightarrow>
      fst (processSendack r kreqs s) = Inl (IndexOutOfRange (- 1) 0))
   \<and> ((\<exists>req\<in>set dreqs. d_messages req = []) \<longrightarrow>
      fst (processDeliver r dreqs s) = Inl (IndexOutOfRange (- 1) 0))"
  using processPermission_empty [of preq r s] processStorage_empty [of sreqs r s]
    processSendack_empty [of kreqs r s] processDeliver_empty [of dreqs r s]
  by blast

theorem workers_abort_on_empty_messages_witness:
  "fst (processPermission env0 preq_empty sys0) = Inl (IndexOutOfRange (- 1) 0)
   \<and> fst (processStorage env0 [req_store, sreq_empty] sys0) = Inl (IndexOutOfRange (- 1) 0)
   \<and> fst (processSendack env0 [kreq_one, kreq_empty] sys0) = Inl (IndexOutOfRange (- 1) 0)
   \<and> fst (processDeliver env0 [dreq_empty] sys0) = Inl (IndexOutOfRange (- 1) 0)"
  using workers_abort_on_empty_messages
    [of preq_empty env0 sys0 "[req_store, sreq_empty]" "[kreq_one, kreq_empty]" "[dreq_empty]"]
  by (simp add: preq_empty_def sreq_empty_def kreq_empty_def dreq_empty_def)

section \<open>Properties of the reactor shard\<close>

text \<open>
  C5. An action whose uniqueNo differs from the channel's is claimed to be dropped
  without a call of \<open>step\<close>. The registry holds the channel \<open>g1\<close> of incarnation
  \<open>n2\<close>; an action for it with the empty \<open>No\<close> differs from \<open>n2\<close>, and
  \<open>handleReceivedActions\<close> calls \<open>step\<close> with it: the channel has taken in one action.
\<close>

theorem stale_action_counterexample:
  "channels shard0 (ChannelToKey shard_env0 (ra_ChannelId act_noNo) (ra_ChannelType act_noNo))
     = Some chan0
   \<and> No act_noNo \<noteq> no chan0
   \<and> stepped (snd (handleReceivedActions shard_env0 [act_noNo] shard0)) = [(''g1'', act_noNo)]
   \<and> channels (snd (handleReceivedActions shard_env0 [act_noNo] shard0)) ''g1''
       = Some (chan0\<lparr>rest := 1\<rparr>)"
  by (simp add: handleReceivedActions_def handleReceivedAction_def shard_env0_def shard0_def Let_def
      chan0_def act_noNo_def)

lemma handleReceivedActions_loop_append:
  "handleReceivedActions_loop e (xs @ ys) sh
     = handleReceivedActions_loop e ys (handleReceivedActions_loop e xs sh)"
  by (induction xs arbitrary: sh) simp_all

text \<open>
  C5, as amended. Take an action anywhere in a drained batch. If, when its turn comes,
  the registry holds the channel it addresses, and its \<open>No\<close> is not empty and differs
  from that channel's \<open>no\<close>, handling it changes nothing: the registry, every channel in
  it and the list of calls of \<open>step\<close> are as before, and the whole batch leaves the
  shard as the batch without that action does.
\<close>

theorem stale_action_dropped:
  assumes "channels (handleReceivedActions_loop e pre sh)
             (ChannelToKey e (ra_ChannelId a) (ra_ChannelType a)) = Some user"
    and "No a \<noteq> []" and "No a \<noteq> no user"
  shows "handleReceivedAction e a (handleReceivedActions_loop e pre sh)
           = handleReceivedActions_loop e pre sh
         \<and> snd (handleReceivedActions e (pre @ a # post) sh)
           = snd (handleReceivedActions e (pre @ post) sh)"
proof -
  have skip: "handleReceivedAction e a (handleReceivedActions_loop e pre sh)
                = handleReceivedActions_loop e pre sh"
    using assms by (simp add: handleReceivedAction_def Let_def)
  have "handleReceivedActions_loop e (pre @ a # post) sh
          = handleReceivedActions_loop e (pre @ post) sh"
    by (simp add: handleReceivedActions_loop_append skip)
  then show ?thesis
    using skip by (simp add: handleReceivedActions_def)
qed

theorem stale_action_dropped_witness:
  "handleReceivedAction shard_env0 act_stale (handleReceivedActions_loop shard_env0 [act_noNo] shard0)
     = handleReceivedActions_loop shard_env0 [act_noNo] shard0
   \<and> snd (handleReceivedActions shard_env0 ([act_noNo] @ act_stale # [act_noNo]) shard0)
     = snd (handleReceivedActions shard_env0 ([act_noNo] @ [act_noNo]) shard0)"
proof -
  have 1: "channels (handleReceivedActions_loop shard_env0 [act_noNo] shard0)
             (ChannelToKey shard_env0 (ra_ChannelId act_stale) (ra_ChannelType act_stale))
           = Some (chan0\<lparr>rest := 1\<rparr>)"
    by (simp add: handleReceivedAction_def shard_env0_def shard0_def chan0_def act_noNo_def Let_def
        act_stale_def)
  have 2: "No act_stale \<noteq> []" by (simp add: act_stale_def)
  have 3: "No act_stale \<noteq> no (chan0\<lparr>rest := 1\<rparr>)" by (simp add: act_stale_def chan0_def)
  show ?thesis using stale_action_dropped [OF 1 2 3] by simp
qed

end
